theory Spec2Isabelle
  imports Main "HOL-Library.Word" "HOL-Library.Sublist"
begin

text \<open>
  LanDrop: discovery of peers over UDP broadcast (\<open>DiscoveryService\<close>) and file
  transfer over TCP (\<open>TransferService\<close>), as implemented under
  \<open>electron/main/services\<close>. Each handler of the event-driven source is a function
  from the state before the event to the state after it; what a handler reads from
  its environment (the clock, a random identifier, the result of \<open>JSON.parse\<close>) is
  an argument. An \<open>async\<close> handler is taken to run to its end before the next
  event is delivered.
\<close>

section \<open>JavaScript \<open>Map\<close>: insertion-ordered association lists\<close>

text \<open>
  A JavaScript \<open>Map\<close> keeps its keys in insertion order; \<open>set\<close> on a key that is
  present replaces the value where the key stands, \<open>set\<close> on a new key appends.
  \<open>forEach\<close> and \<open>values()\<close> walk the entries in that order.
\<close>

type_synonym ('k, 'v) jsmap = "('k \<times> 'v) list"

definition map_has :: "'k \<Rightarrow> ('k, 'v) jsmap \<Rightarrow> bool" where
  "map_has k m = (map_of m k \<noteq> None)"

fun map_set :: "'k \<Rightarrow> 'v \<Rightarrow> ('k, 'v) jsmap \<Rightarrow> ('k, 'v) jsmap" where
  "map_set k v [] = [(k, v)]"
| "map_set k v ((k', v') # m) =
     (if k' = k then (k, v) # m else (k', v') # map_set k v m)"

section \<open>Discovery service (\<open>electron/main/services/discovery.ts\<close>)\<close>

datatype device_type = Desktop | Mobile | Tablet

text \<open>Interface \<open>Device\<close>. The field \<open>id\<close> is \<open>id_d\<close> here, \<open>name\<close> is \<open>name_d\<close>
  and \<open>type\<close> is \<open>type_d\<close>.\<close>

record device =
  id_d :: string
  name_d :: string
  ip :: string
  port :: int
  online :: bool
  type_d :: device_type
  platform :: "string option"

text \<open>Interface \<open>AnnounceMessage\<close>, as \<open>JSON.parse\<close> returns it (fields suffixed
  \<open>_a\<close> where the name is taken).\<close>

record announce_message =
  type_a :: string
  deviceId :: string
  deviceName :: string
  platform_a :: string
  port_a :: int
  timestamp :: int

definition TRANSFER_PORT :: int where
  "TRANSFER_PORT = 5201"

definition BROADCAST_INTERVAL :: int where
  "BROADCAST_INTERVAL = 3000"

definition DEVICE_TIMEOUT :: int where
  "DEVICE_TIMEOUT = 10000"

text \<open>What \<open>this.emit\<close> sends out, in order.\<close>

datatype event = DeviceDiscovered device | DeviceOffline device

text \<open>
  The fields of \<open>DiscoveryService\<close> that the registry logic reads and writes:
  \<open>devices\<close>, \<open>lastSeen\<close>, the local \<open>deviceId\<close> (\<open>self_id\<close>), and the log of emitted
  events. Times are \<open>Date.now()\<close> values in milliseconds.
\<close>

record discovery =
  devices :: "(string, device) jsmap"
  lastSeen :: "(string, int) jsmap"
  self_id :: string
  emitted :: "event list"

definition new_discovery :: "string \<Rightarrow> discovery" where
  "new_discovery me = \<lparr>devices = [], lastSeen = [], self_id = me, emitted = []\<rparr>"

definition getDeviceType :: "string \<Rightarrow> device_type" where
  "getDeviceType p =
     (if p = ''darwin'' \<or> p = ''win32'' \<or> p = ''linux'' then Desktop else Mobile)"

text \<open>\<open>handleAnnounce(data, ip)\<close>; \<open>now\<close> is the value \<open>Date.now()\<close> returns in it.\<close>

definition handleAnnounce :: "announce_message \<Rightarrow> string \<Rightarrow> int \<Rightarrow> discovery \<Rightarrow> discovery" where
  "handleAnnounce data src_ip now st =
     (let isNew = \<not> map_has (deviceId data) (devices st);
          dev = \<lparr>id_d = deviceId data, name_d = deviceName data, ip = src_ip,
                 port = TRANSFER_PORT, online = True,
                 type_d = getDeviceType (platform_a data),
                 platform = Some (platform_a data)\<rparr>
      in st\<lparr>lastSeen := map_set (deviceId data) now (lastSeen st),
             devices := map_set (deviceId data) dev (devices st),
             emitted := emitted st @ (if isNew then [DeviceDiscovered dev] else [])\<rparr>)"

text \<open>
  The \<open>'message'\<close> handler of \<open>createSocket\<close>. The argument is the parsed packet, or
  \<open>None\<close> when \<open>JSON.parse\<close> throws (the \<open>catch\<close> ignores it); \<open>src_ip\<close> is
  \<open>rinfo.address\<close>.
\<close>

definition on_message :: "announce_message option \<Rightarrow> string \<Rightarrow> int \<Rightarrow> discovery \<Rightarrow> discovery" where
  "on_message parsed src_ip now st =
     (case parsed of
        None \<Rightarrow> st
      | Some data \<Rightarrow>
          if type_a data = ''announce'' \<and> deviceId data \<noteq> self_id st
          then handleAnnounce data src_ip now st
          else st)"

text \<open>\<open>this.lastSeen.get(id) || 0\<close>: a missing entry reads as 0.\<close>

definition lastSeenTime :: "discovery \<Rightarrow> string \<Rightarrow> int" where
  "lastSeenTime st i = (case map_of (lastSeen st) i of None \<Rightarrow> 0 | Some t \<Rightarrow> t)"

definition timed_out :: "discovery \<Rightarrow> int \<Rightarrow> string \<Rightarrow> bool" where
  "timed_out st now i = (now - lastSeenTime st i > DEVICE_TIMEOUT)"

text \<open>
  One tick of the interval that \<open>startCleanup\<close> installs (every 1000 ms). The
  \<open>forEach\<close> sets \<open>online = false\<close> on each timed-out device object in place and
  collects it in \<open>devicesToRemove\<close>; then \<open>device-offline\<close> is emitted for each
  collected device. Nothing is deleted from \<open>devices\<close> or \<open>lastSeen\<close>.
\<close>

definition cleanup_tick :: "int \<Rightarrow> discovery \<Rightarrow> discovery" where
  "cleanup_tick now st =
     (let devs = map (\<lambda>(i, d). (i, if timed_out st now i then d\<lparr>online := False\<rparr> else d))
                     (devices st);
          devicesToRemove = map snd (filter (\<lambda>(i, d). timed_out st now i) devs)
      in st\<lparr>devices := devs,
             emitted := emitted st @ map DeviceOffline devicesToRemove\<rparr>)"

text \<open>\<open>getDevices()\<close>: the devices listed as online.\<close>

definition getDevices :: "discovery \<Rightarrow> device list" where
  "getDevices st = filter online (map snd (devices st))"

text \<open>
  The two things that happen to a running service, in any order: a datagram arrives
  (\<open>Message\<close>: parse result, source address, time) or the cleanup interval fires
  (\<open>Tick\<close>: time).
\<close>

datatype discovery_op = Message "announce_message option" string int | Tick int

fun discovery_step :: "discovery \<Rightarrow> discovery_op \<Rightarrow> discovery" where
  "discovery_step st (Message parsed src_ip now) = on_message parsed src_ip now st"
| "discovery_step st (Tick now) = cleanup_tick now st"

definition run_discovery :: "discovery_op list \<Rightarrow> discovery \<Rightarrow> discovery" where
  "run_discovery ops st = foldl discovery_step st ops"

text \<open>The registry's entries have distinct keys and each entry carries its key as \<open>id\<close>.\<close>

definition keyed_by_id :: "(string, device) jsmap \<Rightarrow> bool" where
  "keyed_by_id m = (distinct (map fst m) \<and> list_all (\<lambda>(k, d). id_d d = k) m)"

text \<open>A peer's announcement and the device entry made from it, for the examples.\<close>

definition peer_announce :: announce_message where
  "peer_announce = \<lparr>type_a = ''announce'', deviceId = ''peer'', deviceName = ''laptop'',
     platform_a = ''linux'', port_a = 5201, timestamp = 900\<rparr>"

definition peer_device :: device where
  "peer_device = \<lparr>id_d = ''peer'', name_d = ''laptop'', ip = ''192.168.1.7'', port = 5201,
     online = True, type_d = Desktop, platform = Some ''linux''\<rparr>"

section \<open>Paths (\<open>path.join\<close> and \<open>path.dirname\<close> of Node.js, POSIX flavour)\<close>

text \<open>
  \<open>transfer.ts\<close> builds every destination path with \<open>path.join\<close> and
  \<open>path.dirname\<close>. They are library functions; this is their POSIX behaviour,
  with the character loop of \<open>normalizeString\<close> written as a walk over the segments
  between separators: an empty segment and \<open>.\<close> are skipped, \<open>..\<close> removes the
  last kept segment unless there is none or it is \<open>..\<close> itself (then it is kept when
  \<open>allowAboveRoot\<close> holds and dropped otherwise), any other segment is kept.
\<close>

fun split_sep :: "string \<Rightarrow> string list" where
  "split_sep [] = [[]]"
| "split_sep (c # cs) =
     (if c = CHR ''/'' then [] # split_sep cs
      else (case split_sep cs of [] \<Rightarrow> [[c]] | s # ss \<Rightarrow> (c # s) # ss))"

fun join_sep :: "string list \<Rightarrow> string" where
  "join_sep [] = []"
| "join_sep [s] = s"
| "join_sep (s # t # ss) = s @ ''/'' @ join_sep (t # ss)"

definition normalize_step :: "bool \<Rightarrow> string list \<Rightarrow> string \<Rightarrow> string list" where
  "normalize_step allowAboveRoot res seg =
     (if seg = [] \<or> seg = ''.'' then res
      else if seg = ''..'' then
        (if res \<noteq> [] \<and> last res \<noteq> ''..'' then butlast res
         else if allowAboveRoot then res @ [''..''] else res)
      else res @ [seg])"

definition normalizeString :: "string \<Rightarrow> bool \<Rightarrow> string" where
  "normalizeString p allowAboveRoot =
     join_sep (foldl (normalize_step allowAboveRoot) [] (split_sep p))"

definition normalize_path :: "string \<Rightarrow> string" where
  "normalize_path p =
     (if p = [] then ''.''
      else
        let isAbsolute = (hd p = CHR ''/'');
            trailingSeparator = (last p = CHR ''/'');
            q = normalizeString p (\<not> isAbsolute)
        in if q = [] then (if isAbsolute then ''/'' else if trailingSeparator then ''./'' else ''.'')
           else (if isAbsolute then ''/'' else []) @ q @ (if trailingSeparator then ''/'' else []))"

text \<open>\<open>path.join(a, b)\<close>: the non-empty arguments joined by \<open>/\<close>, then normalised.\<close>

definition path_join :: "string \<Rightarrow> string \<Rightarrow> string" where
  "path_join a b =
     (if a = [] \<and> b = [] then ''.''
      else normalize_path (if a = [] then b else if b = [] then a else a @ ''/'' @ b))"

text \<open>
  \<open>path.dirname(p)\<close>: scanning from the end down to index 1, skip the trailing
  separators and the last segment; \<open>end_i\<close> (\<open>end\<close> in the library) is the index of the separator before it.
\<close>

definition path_dirname :: "string \<Rightarrow> string" where
  "path_dirname p =
     (if p = [] then ''.''
      else
        let hasRoot = (hd p = CHR ''/'');
            scanned = dropWhile (\<lambda>c. c \<noteq> CHR ''/'') (dropWhile (\<lambda>c. c = CHR ''/'') (rev (tl p)));
            end_i = length scanned
        in if scanned = [] then (if hasRoot then ''/'' else ''.'')
           else if hasRoot \<and> end_i = 1 then ''//''
           else take end_i p)"





section \<open>Transfer service (\<open>electron/main/services/transfer.ts\<close>)\<close>

type_synonym byte = "8 word"

definition CHUNK_SIZE :: nat where
  "CHUNK_SIZE = 64 * 1024"

text \<open>Interface \<open>FileInfo\<close> (\<open>size\<close> is \<open>size_f\<close>). Sizes are JavaScript numbers
  holding byte counts; they are integers here.\<close>

record file_info =
  name :: string
  size_f :: int
  isDirectory :: bool
  path :: string
  relativePath :: "string option"

datatype status = Pending | Transferring | Completed | Failed

datatype direction = Send | Receive

text \<open>Interface \<open>TransferTask\<close>, without \<open>speed\<close> (a floating-point quotient that
  nothing below reads).\<close>

record transfer_task =
  id_t :: string
  deviceId_t :: string
  deviceName_t :: string
  files :: "file_info list"
  totalSize :: int
  transferredSize :: int
  status :: status
  direction :: direction
  startTime :: int

text \<open>The header record the initiator sends, and the reply, as \<open>JSON.parse\<close> returns
  them.\<close>

record transfer_request =
  type_r :: string
  fileCount :: nat
  totalSize_r :: int
  files_r :: "file_info list"

record transfer_response =
  type_p :: string
  accepted :: bool
  message :: string

text \<open>What the callbacks registered by \<open>setupIPC\<close> are called with.\<close>

datatype notification =
    Progress string int int
  | Complete transfer_task
  | Request transfer_task
  | Error string string

text \<open>One \<open>socket.write\<close>: a header line (JSON and newline) or raw bytes.\<close>

datatype wire = RequestLine transfer_request | ResponseLine transfer_response | Bytes "byte list"

text \<open>\<open>buf.readUInt32BE(0)\<close>; \<open>None\<close> is the \<open>RangeError\<close> on fewer than 4 bytes.\<close>

fun readUInt32BE :: "byte list \<Rightarrow> nat option" where
  "readUInt32BE (b0 # b1 # b2 # b3 # rest) =
     Some (unat b0 * 2 ^ 24 + unat b1 * 2 ^ 16 + unat b2 * 2 ^ 8 + unat b3)"
| "readUInt32BE _ = None"

text \<open>\<open>Buffer.alloc(4)\<close> filled by \<open>writeUInt32BE(n, 0)\<close>, for \<open>n < 2 ^ 32\<close>.\<close>

definition writeUInt32BE :: "nat \<Rightarrow> byte list" where
  "writeUInt32BE n =
     [word_of_nat (n div 2 ^ 24), word_of_nat (n div 2 ^ 16), word_of_nat (n div 2 ^ 8),
      word_of_nat n]"

subsection \<open>File system\<close>

text \<open>
  The part of the file system the service touches: regular files with their content and
  directories. \<open>open(p, 'w')\<close> creates or truncates the file and fails on a
  directory; \<open>mkdirSync(p, {recursive: true})\<close> records the directory.
\<close>

record filesystem =
  fs_files :: "string \<rightharpoonup> byte list"
  fs_dirs :: "string list"

definition existsSync :: "filesystem \<Rightarrow> string \<Rightarrow> bool" where
  "existsSync fs p = (p \<in> set (fs_dirs fs) \<or> fs_files fs p \<noteq> None)"

definition mkdirSync :: "filesystem \<Rightarrow> string \<Rightarrow> filesystem" where
  "mkdirSync fs p = fs\<lparr>fs_dirs := p # fs_dirs fs\<rparr>"

definition open_w :: "filesystem \<Rightarrow> string \<Rightarrow> filesystem option" where
  "open_w fs p =
     (if p \<in> set (fs_dirs fs) then None
      else Some (fs\<lparr>fs_files := (fs_files fs)(p \<mapsto> [])\<rparr>))"

definition write_h :: "filesystem \<Rightarrow> string \<Rightarrow> byte list \<Rightarrow> filesystem" where
  "write_h fs p bytes =
     fs\<lparr>fs_files := (fs_files fs)(p \<mapsto> (case fs_files fs p of None \<Rightarrow> [] | Some c \<Rightarrow> c) @ bytes)\<rparr>"

subsection \<open>Responder\<close>

text \<open>
  The state of the service and of one inbound connection. \<open>downloadDir\<close> and
  \<open>currentTask\<close> are fields of \<open>TransferService\<close>; \<open>buffer\<close>, \<open>headerParsed\<close> belong to
  the closure of \<open>handleConnection\<close>; \<open>r_files\<close>, \<open>fileIndex\<close>, \<open>currentFileHandle\<close>
  (the path of the open handle) and \<open>fileWrittenBytes\<close> to the closure of the running
  \<open>receiveNextFile\<close>; \<open>listening\<close> says that \<open>receiveData\<close> has a \<open>once('data')\<close>
  listener registered; \<open>sent\<close> and \<open>socket_ended\<close> record \<open>socket.write\<close> and
  \<open>socket.end\<close>.

  \<open>totalWrittenBytes\<close> is what the identifier \<open>totalWrittenBytes\<close> resolves to inside
  \<open>receiveNextFile\<close> (line 248). The only declaration of that name is a \<open>let\<close> local to
  \<open>handleConnection\<close> (line 107), which is not in scope in the method
  \<open>receiveNextFile\<close>: in the source as it stands the identifier is unbound (\<open>None\<close>)
  and reading it throws a \<open>ReferenceError\<close>. \<open>Some n\<close> is the reading in which the
  counter of line 107 were visible there; the results below that concern the data phase
  hold for both.
\<close>

record receiver =
  downloadDir :: string
  currentTask :: "transfer_task option"
  fs :: filesystem
  buffer :: "byte list"
  headerParsed :: bool
  r_files :: "file_info list"
  fileIndex :: nat
  currentFileHandle :: "string option"
  fileWrittenBytes :: nat
  totalWrittenBytes :: "nat option"
  listening :: bool
  sent :: "wire list"
  socket_ended :: bool
  notified :: "notification list"

text \<open>\<open>setDownloadDir(dir)\<close>.\<close>

definition setDownloadDir :: "string \<Rightarrow> receiver \<Rightarrow> receiver" where
  "setDownloadDir dir st = (if existsSync (fs st) dir then st\<lparr>downloadDir := dir\<rparr> else st)"

text \<open>
  \<open>receiveNextFile(socket, files, fileIndex)\<close> up to the registration of the
  \<open>once('data')\<close> listener. The entry's \<open>isDirectory\<close> and \<open>size\<close> are not read.
\<close>

definition receiveNextFile :: "receiver \<Rightarrow> file_info list \<Rightarrow> nat \<Rightarrow> receiver" where
  "receiveNextFile st fls idx =
     (if idx \<ge> length fls then
        (case currentTask st of
           None \<Rightarrow> st\<lparr>socket_ended := True\<rparr>
         | Some t \<Rightarrow>
             let t' = t\<lparr>status := Completed, transferredSize := totalSize t\<rparr>
             in st\<lparr>currentTask := Some t', notified := notified st @ [Complete t'],
                   socket_ended := True\<rparr>)
      else
        let file = fls ! idx;
            filePath = path_join (downloadDir st) (name file);
            dir = path_dirname filePath;
            fs1 = (if \<not> existsSync (fs st) dir then mkdirSync (fs st) dir else fs st)
        in case open_w fs1 filePath of
             None \<Rightarrow> st\<lparr>fs := fs1, socket_ended := True\<rparr>
           | Some fs2 \<Rightarrow>
               st\<lparr>fs := fs2, r_files := fls, fileIndex := idx,
                    currentFileHandle := Some filePath, fileWrittenBytes := 0,
                    listening := True\<rparr>)"

text \<open>
  The listener that \<open>receiveData\<close> registers with \<open>socket.once('data', ...)\<close>, run to
  its end on one \<open>'data'\<close> event. Without a registered listener the event is not seen.
  The listener re-registers itself (\<open>receiveData()\<close>) on a short event and after a
  chunk; the \<open>catch\<close> after the write ends the socket and registers nothing.
\<close>

definition receiveData :: "receiver \<Rightarrow> byte list \<Rightarrow> receiver" where
  "receiveData st dat =
     (case (listening st, currentFileHandle st) of
        (True, Some h) \<Rightarrow>
          if length dat = 4 \<and> readUInt32BE dat = Some 0 then
            receiveNextFile (st\<lparr>listening := False, currentFileHandle := None\<rparr>)
              (r_files st) (fileIndex st + 1)
          else if length dat < 4 then st
          else
            (case readUInt32BE dat of
               None \<Rightarrow> st
             | Some chunkSize \<Rightarrow>
                 let chunkData = take chunkSize (drop 4 dat);
                     st1 = st\<lparr>fs := write_h (fs st) h chunkData,
                              fileWrittenBytes := fileWrittenBytes st + length chunkData\<rparr>
                 in case totalWrittenBytes st1 of
                      None \<Rightarrow> st1\<lparr>socket_ended := True, listening := False\<rparr>
                    | Some written_total \<Rightarrow>
                        let total' = written_total + length chunkData;
                            st2 = st1\<lparr>totalWrittenBytes := Some total'\<rparr>
                        in case currentTask st2 of
                             None \<Rightarrow> st2
                           | Some t \<Rightarrow>
                               let t' = t\<lparr>transferredSize := int total', status := Transferring\<rparr>
                               in st2\<lparr>currentTask := Some t',
                                      notified := notified st2 @
                                        [Progress (id_t t') (int total') (totalSize t')]\<rparr>)
      | _ \<Rightarrow> st)"

text \<open>
  The \<open>'data'\<close> handler of \<open>handleConnection\<close>. \<open>parse\<close> stands for \<open>JSON.parse\<close> on
  the header line (\<open>None\<close> when it throws: the \<open>catch\<close> ends the socket);
  \<open>accept\<close> is the value of the local constant \<open>accepted\<close>, which the source fixes to
  \<open>true\<close>; \<open>new_id\<close> and \<open>now\<close> are the values of \<open>crypto.randomUUID()\<close> and
  \<open>Date.now()\<close>, \<open>remote\<close> is \<open>socket.remoteAddress\<close>. The two message texts
  of the reply, Chinese in the source, are \<open>accept\<close> and \<open>reject\<close> here. The
  callbacks are registered, as \<open>setupIPC\<close> does before the server listens.
\<close>

definition handleConnection_data ::
  "(byte list \<Rightarrow> transfer_request option) \<Rightarrow> bool \<Rightarrow> string \<Rightarrow> int \<Rightarrow> string \<Rightarrow>
   receiver \<Rightarrow> byte list \<Rightarrow> receiver" where
  "handleConnection_data parse accept new_id now remote st dat =
     (let st0 = st\<lparr>buffer := buffer st @ dat\<rparr>
      in if headerParsed st0 then st0
         else if 10 \<notin> set (buffer st0) then st0
         else
           let headerStr = takeWhile (\<lambda>b. b \<noteq> 10) (buffer st0)
           in case parse headerStr of
                None \<Rightarrow> st0\<lparr>socket_ended := True\<rparr>
              | Some header \<Rightarrow>
                  if type_r header \<noteq> ''transfer_request'' then st0
                  else
                    let task = \<lparr>id_t = new_id, deviceId_t = ''unknown'', deviceName_t = remote,
                                 files = files_r header, totalSize = totalSize_r header,
                                 transferredSize = 0, status = Pending, direction = Receive,
                                 startTime = now\<rparr>;
                        response = \<lparr>type_p = ''transfer_response'', accepted = accept,
                                     message = (if accept then ''accept'' else ''reject'')\<rparr>;
                        st1 = st0\<lparr>buffer := tl (dropWhile (\<lambda>b. b \<noteq> 10) (buffer st0)),
                                  notified := notified st0 @ [Request task],
                                  sent := sent st0 @ [ResponseLine response]\<rparr>
                    in if \<not> accept then st1\<lparr>socket_ended := True\<rparr>
                       else receiveNextFile (st1\<lparr>headerParsed := True, currentTask := Some task\<rparr>)
                              (files_r header) 0)"

text \<open>
  One \<open>'data'\<close> event on an inbound socket reaches the handler of \<open>handleConnection\<close>
  and, if one was registered before the event, the listener of \<open>receiveData\<close>. Each
  event is taken to be handled to its end before the next one arrives.
\<close>

definition socket_data ::
  "(byte list \<Rightarrow> transfer_request option) \<Rightarrow> bool \<Rightarrow> string \<Rightarrow> int \<Rightarrow> string \<Rightarrow>
   receiver \<Rightarrow> byte list \<Rightarrow> receiver" where
  "socket_data parse accept new_id now remote st dat =
     (if listening st
      then receiveData (handleConnection_data parse accept new_id now remote st dat) dat
      else handleConnection_data parse accept new_id now remote st dat)"

text \<open>A connection: the \<open>'data'\<close> events of one inbound socket, in order.\<close>

definition connection ::
  "(byte list \<Rightarrow> transfer_request option) \<Rightarrow> bool \<Rightarrow> string \<Rightarrow> int \<Rightarrow> string \<Rightarrow>
   receiver \<Rightarrow> byte list list \<Rightarrow> receiver" where
  "connection parse accept new_id now remote st evs =
     foldl (socket_data parse accept new_id now remote) st evs"

text \<open>The data phase alone: the \<open>'data'\<close> events as \<open>receiveData\<close> sees them.\<close>

definition receive_events :: "receiver \<Rightarrow> byte list list \<Rightarrow> receiver" where
  "receive_events st evs = foldl receiveData st evs"

text \<open>A service whose download directory is \<open>root\<close>, before any connection.\<close>

definition idle_receiver :: "string \<Rightarrow> receiver" where
  "idle_receiver root =
     \<lparr>downloadDir = root, currentTask = None,
      fs = \<lparr>fs_files = Map.empty, fs_dirs = [root]\<rparr>,
      buffer = [], headerParsed = False, r_files = [], fileIndex = 0,
      currentFileHandle = None, fileWrittenBytes = 0, totalWrittenBytes = None,
      listening = False, sent = [], socket_ended = False, notified = []\<rparr>"

text \<open>
  The service as \<open>handleConnection\<close> leaves it when it has accepted a request with
  the manifest \<open>fls\<close> and started on the first entry; \<open>counter\<close> is what
  \<open>totalWrittenBytes\<close> is bound to.
\<close>

definition accepted_receiver :: "string \<Rightarrow> nat option \<Rightarrow> file_info list \<Rightarrow> receiver" where
  "accepted_receiver root counter fls =
     receiveNextFile
       ((idle_receiver root)
          \<lparr>headerParsed := True, totalWrittenBytes := counter,
           currentTask := Some \<lparr>id_t = ''task'', deviceId_t = ''unknown'',
             deviceName_t = ''192.168.1.7'', files = fls, totalSize = sum_list (map size_f fls),
             transferredSize = 0, status = Pending, direction = Receive, startTime = 0\<rparr>\<rparr>)
       fls 0"

subsection \<open>Initiator\<close>

datatype promise = Unsettled | Resolved string | Rejected string

text \<open>What the initiator reads from: regular files with their content, directories.\<close>

datatype node = File "byte list" | Dir

text \<open>
  The closure of one \<open>sendFiles\<close> call: the task (also \<open>this.currentTask\<close>), the
  promise it returned, the \<open>socket.write\<close> calls so far, whether \<open>socket.end\<close> was
  called, and whether \<open>sendNextFile\<close> has registered its \<open>once('close')\<close> listener.
\<close>

record sender =
  task :: transfer_task
  totalSize_s :: int
  promise :: promise
  written :: "wire list"
  ended :: bool
  headerSent :: bool
  awaiting_close :: bool
  notified_s :: "notification list"

definition settle :: "promise \<Rightarrow> promise \<Rightarrow> promise" where
  "settle outcome p = (case p of Unsettled \<Rightarrow> outcome | _ \<Rightarrow> p)"

text \<open>\<open>files.reduce((sum, f) => sum + f.size, 0)\<close>.\<close>

definition sum_sizes :: "file_info list \<Rightarrow> int" where
  "sum_sizes fls = foldl (\<lambda>sum f. sum + size_f f) 0 fls"

text \<open>\<open>sendFiles(device, files)\<close> up to the return of the promise.\<close>

definition sendFiles :: "device \<Rightarrow> file_info list \<Rightarrow> string \<Rightarrow> int \<Rightarrow> sender" where
  "sendFiles dev fls taskId now =
     (let totalSize = sum_sizes fls
      in \<lparr>task = \<lparr>id_t = taskId, deviceId_t = id_d dev, deviceName_t = name_d dev,
                   files = fls, totalSize = totalSize, transferredSize = 0,
                   status = Pending, direction = Send, startTime = now\<rparr>,
          totalSize_s = totalSize, promise = Unsettled, written = [], ended = False,
          headerSent = False, awaiting_close = False, notified_s = []\<rparr>)"

text \<open>The callback of \<open>socket.connect\<close>.\<close>

definition on_connect :: "sender \<Rightarrow> sender" where
  "on_connect st =
     st\<lparr>written := written st @
           [RequestLine \<lparr>type_r = ''transfer_request'', fileCount = length (files (task st)),
                         totalSize_r = totalSize_s st, files_r = files (task st)\<rparr>],
        headerSent := True\<rparr>"

text \<open>
  \<open>readAndSend\<close> of \<open>sendNextFile\<close>, for a regular file with the given content:
  read up to \<open>CHUNK_SIZE\<close> bytes at offset \<open>bytesRead\<close>; stop at a read of 0 bytes,
  else write the 4-byte length and the chunk, account for it and go on.
\<close>

function readAndSend :: "byte list \<Rightarrow> nat \<Rightarrow> sender \<Rightarrow> sender" where
  "readAndSend content bytesRead st =
     (let read = min CHUNK_SIZE (length content - bytesRead)
      in if read = 0 then st
         else
           let t' = (task st)\<lparr>transferredSize := transferredSize (task st) + int read\<rparr>
           in readAndSend content (bytesRead + read)
                (st\<lparr>written := written st @
                       [Bytes (writeUInt32BE read @ take read (drop bytesRead content))],
                     task := t',
                     notified_s := notified_s st @
                       [Progress (id_t t') (transferredSize t') (totalSize t')]\<rparr>))"
  by pat_completeness auto
termination
  by (relation "measure (\<lambda>(content, bytesRead, st). length content - bytesRead)")
    (auto simp: CHUNK_SIZE_def min_def split: if_splits)

text \<open>
  \<open>sendNextFile(socket, files, fileIndex)\<close>: past the last entry, write the 4-byte
  zero end marker and wait for \<open>'close'\<close>. Otherwise open \<open>file.path\<close> (a missing path
  fails: the \<open>catch\<close> ends the socket), stream the file and go on to the next entry.
  Reading a directory fails inside \<open>readAndSend\<close>, whose promise nobody awaits: sending
  stops there. \<open>isDirectory\<close> is not read.
\<close>

function sendNextFile :: "(string \<rightharpoonup> node) \<Rightarrow> sender \<Rightarrow> file_info list \<Rightarrow> nat \<Rightarrow> sender" where
  "sendNextFile src st fls idx =
     (if idx \<ge> length fls then
        st\<lparr>written := written st @ [Bytes (writeUInt32BE 0)], awaiting_close := True\<rparr>
      else
        case src (path (fls ! idx)) of
          None \<Rightarrow> st\<lparr>ended := True\<rparr>
        | Some Dir \<Rightarrow> st
        | Some (File content) \<Rightarrow> sendNextFile src (readAndSend content 0 st) fls (idx + 1))"
  by pat_completeness auto
termination
  by (relation "measure (\<lambda>(src, st, fls, idx). length fls - idx)") auto

text \<open>
  The \<open>'data'\<close> handler of \<open>sendFiles\<close>. The argument is the parsed reply, \<open>None\<close>
  when \<open>JSON.parse\<close> throws (ignored).
\<close>

definition on_response :: "(string \<rightharpoonup> node) \<Rightarrow> sender \<Rightarrow> transfer_response option \<Rightarrow> sender" where
  "on_response src st parsed =
     (case parsed of
        None \<Rightarrow> st
      | Some response \<Rightarrow>
          if type_p response = ''transfer_response'' then
            (if accepted response then
               sendNextFile src (st\<lparr>task := (task st)\<lparr>status := Transferring\<rparr>\<rparr>)
                 (files (task st)) 0
             else st\<lparr>promise := settle (Rejected (message response)) (promise st),
                     ended := True\<rparr>)
          else st)"

text \<open>
  The \<open>'close'\<close> event: first the handler of \<open>sendFiles\<close> (resolve if the task is
  completed), then the \<open>once('close')\<close> listener of \<open>sendNextFile\<close> if registered.
\<close>

definition on_close :: "sender \<Rightarrow> sender" where
  "on_close st =
     (let st1 = (if status (task st) = Completed
                 then st\<lparr>promise := settle (Resolved (id_t (task st))) (promise st)\<rparr> else st)
      in if awaiting_close st1 then
           let t' = (task st1)\<lparr>status := Completed\<rparr>
           in st1\<lparr>task := t', notified_s := notified_s st1 @ [Complete t'],
                  awaiting_close := False\<rparr>
         else st1)"

text \<open>The bytes of the \<open>socket.write\<close> calls of the data phase, one list per call.\<close>

fun data_writes :: "wire list \<Rightarrow> byte list list" where
  "data_writes [] = []"
| "data_writes (Bytes b # ws) = b # data_writes ws"
| "data_writes (_ # ws) = data_writes ws"

subsection \<open>Example data\<close>

definition file_a :: file_info where
  "file_a = \<lparr>name = ''a.txt'', size_f = 2, isDirectory = False, path = ''/src/a.txt'',
     relativePath = None\<rparr>"

definition file_b :: file_info where
  "file_b = \<lparr>name = ''b.txt'', size_f = 3, isDirectory = False, path = ''/src/b.txt'',
     relativePath = None\<rparr>"

definition file_empty :: file_info where
  "file_empty = \<lparr>name = ''e.txt'', size_f = 0, isDirectory = False, path = ''/src/e.txt'',
     relativePath = None\<rparr>"

definition dir_photos :: file_info where
  "dir_photos = \<lparr>name = ''photos'', size_f = 4096, isDirectory = True, path = ''/src/photos'',
     relativePath = None\<rparr>"



definition src_disk :: "string \<rightharpoonup> node" where
  "src_disk = [''/src/a.txt'' \<mapsto> File [97, 97], ''/src/b.txt'' \<mapsto> File [98, 98, 98],
     ''/src/e.txt'' \<mapsto> File []]"

definition accept_response :: transfer_response where
  "accept_response = \<lparr>type_p = ''transfer_response'', accepted = True, message = ''accept''\<rparr>"

definition reject_response :: transfer_response where
  "reject_response = \<lparr>type_p = ''transfer_response'', accepted = False, message = ''reject''\<rparr>"

section \<open>Facts about the map operations\<close>

lemma map_of_map_set: "map_of (map_set k v m) k' = (if k' = k then Some v else map_of m k')"
  by (induction m) auto

lemma map_fst_map_set:
  "map fst (map_set k v m) = (if k \<in> set (map fst m) then map fst m else map fst m @ [k])"
  by (induction m) force+

lemma distinct_map_set: "distinct (map fst m) \<Longrightarrow> distinct (map fst (map_set k v m))"
  by (simp add: map_fst_map_set)

lemma map_of_relabel:
  "map_of (map (\<lambda>(i, d). (i, f i d)) m) k = map_option (f k) (map_of m k)"
  by (induction m) auto

section \<open>Staleness window\<close>

lemma cleanup_tick_device:
  "map_of (devices (cleanup_tick now st)) i =
     map_option (\<lambda>d. if timed_out st now i then d\<lparr>online := False\<rparr> else d)
       (map_of (devices st) i)"
  unfolding cleanup_tick_def Let_def
  by (simp add: map_of_relabel [where f = "\<lambda>i d. if timed_out st now i then d\<lparr>online := False\<rparr> else d"])

text \<open>
  C7. With the announcement interval of 3000 ms and the staleness window of 10000 ms,
  a device whose last announcement was seen at time \<open>t\<close> is marked offline by a sweep
  that runs at \<open>t + 11000\<close> (and drops out of the online list), while a sweep at
  \<open>t + 8000\<close> leaves it online.
\<close>

theorem sweep_11000_evicts_8000_keeps:
  assumes "map_of (lastSeen st) i = Some t"
    and "map_of (devices st) i = Some d"
    and "online d"
  shows "BROADCAST_INTERVAL = 3000 \<and> DEVICE_TIMEOUT = 10000
       \<and> map_of (devices (cleanup_tick (t + 11000) st)) i = Some (d\<lparr>online := False\<rparr>)
       \<and> DeviceOffline (d\<lparr>online := False\<rparr>) \<in> set (emitted (cleanup_tick (t + 11000) st))
       \<and> d\<lparr>online := False\<rparr> \<notin> set (getDevices (cleanup_tick (t + 11000) st))
       \<and> map_of (devices (cleanup_tick (t + 8000) st)) i = Some d
       \<and> d \<in> set (getDevices (cleanup_tick (t + 8000) st))"
proof -
  have stale: "timed_out st (t + 11000) i" and fresh: "\<not> timed_out st (t + 8000) i"
    using assms(1) by (simp_all add: timed_out_def lastSeenTime_def DEVICE_TIMEOUT_def)
  have mem: "(i, d) \<in> set (devices st)"
    using assms(2) by (rule map_of_SomeD)
  have c1: "map_of (devices (cleanup_tick (t + 11000) st)) i = Some (d\<lparr>online := False\<rparr>)"
    using assms(2) stale by (simp add: cleanup_tick_device)
  have c2: "DeviceOffline (d\<lparr>online := False\<rparr>) \<in> set (emitted (cleanup_tick (t + 11000) st))"
    using mem stale unfolding cleanup_tick_def Let_def by force
  have c3: "d\<lparr>online := False\<rparr> \<notin> set (getDevices (cleanup_tick (t + 11000) st))"
    by (simp add: getDevices_def)
  have c4: "map_of (devices (cleanup_tick (t + 8000) st)) i = Some d"
    using assms(2) fresh by (simp add: cleanup_tick_device)
  have "d \<in> snd ` set (devices (cleanup_tick (t + 8000) st))"
    using map_of_SomeD [OF c4] by force
  then have c5: "d \<in> set (getDevices (cleanup_tick (t + 8000) st))"
    using assms(3) by (simp add: getDevices_def)
  show ?thesis
    using c1 c2 c3 c4 c5 by (simp add: BROADCAST_INTERVAL_def DEVICE_TIMEOUT_def)
qed

theorem sweep_11000_evicts_8000_keeps_witness:
  "map_of (devices (cleanup_tick 16000
      \<lparr>devices = [(''peer'', peer_device)], lastSeen = [(''peer'', 5000)],
       self_id = ''me'', emitted = []\<rparr>)) ''peer'' = Some (peer_device\<lparr>online := False\<rparr>)
   \<and> map_of (devices (cleanup_tick 13000
      \<lparr>devices = [(''peer'', peer_device)], lastSeen = [(''peer'', 5000)],
       self_id = ''me'', emitted = []\<rparr>)) ''peer'' = Some peer_device"
  using sweep_11000_evicts_8000_keeps [of
      "\<lparr>devices = [(''peer'', peer_device)], lastSeen = [(''peer'', 5000)],
        self_id = ''me'', emitted = []\<rparr>" "''peer''" 5000 peer_device]
  by (simp add: peer_device_def)

section \<open>What an announcement stores\<close>

text \<open>
  C5 (as the code has it). For every announcement handed to \<open>handleAnnounce\<close>, from any
  earlier state of the registry (so also after earlier announcements of the same
  identifier), the entry stored under the announced identifier has the packet's source
  address as \<open>ip\<close> and the fixed transfer port 5201 as \<open>port\<close>; the port field
  of the announcement is not read.
\<close>

theorem handleAnnounce_stores_source_ip_and_fixed_port:
  "map_of (devices (handleAnnounce data src_ip now st)) (deviceId data) =
     Some \<lparr>id_d = deviceId data, name_d = deviceName data, ip = src_ip, port = 5201,
           online = True, type_d = getDeviceType (platform_a data),
           platform = Some (platform_a data)\<rparr>"
  by (simp add: handleAnnounce_def Let_def map_of_map_set TRANSFER_PORT_def)

text \<open>
  C5 as stated fails: an announcement that declares transfer port 6000 is stored with
  port 5201.
\<close>

theorem announced_port_not_stored:
  "map_of (devices (on_message (Some (peer_announce\<lparr>port_a := 6000\<rparr>)) ''192.168.1.7'' 1000
      (new_discovery ''me''))) ''peer'' = Some peer_device
   \<and> port peer_device \<noteq> port_a (peer_announce\<lparr>port_a := 6000\<rparr>)"
  by (simp add: on_message_def handleAnnounce_def Let_def peer_announce_def peer_device_def
      new_discovery_def map_has_def getDeviceType_def TRANSFER_PORT_def)

section \<open>One entry per identifier\<close>

lemma list_all_map_set:
  "list_all P m \<Longrightarrow> P (k, v) \<Longrightarrow> list_all P (map_set k v m)"
  by (induction m) auto

lemma keyed_by_id_handleAnnounce:
  "keyed_by_id (devices st) \<Longrightarrow> keyed_by_id (devices (handleAnnounce data src_ip now st))"
  by (simp add: keyed_by_id_def handleAnnounce_def Let_def distinct_map_set list_all_map_set)

lemma map_fst_relabel: "map fst (map (\<lambda>(i, d). (i, f i d)) m) = map fst m"
  by (induction m) auto

lemma ids_mark_offline:
  "list_all (\<lambda>(k, d). id_d d = k) m \<Longrightarrow>
   list_all (\<lambda>(k, d). id_d d = k)
     (map (\<lambda>(i, d). (i, if c i then d\<lparr>online := False\<rparr> else d)) m)"
  by (induction m) auto

lemma keyed_by_id_cleanup_tick:
  "keyed_by_id (devices st) \<Longrightarrow> keyed_by_id (devices (cleanup_tick now st))"
  by (simp add: keyed_by_id_def cleanup_tick_def Let_def map_fst_relabel ids_mark_offline
      del: map_map)

lemma keyed_by_id_ids: "keyed_by_id m \<Longrightarrow> map (id_d \<circ> snd) m = map fst m"
  by (induction m) (auto simp: keyed_by_id_def)

lemma keyed_by_id_step:
  "keyed_by_id (devices st) \<Longrightarrow> keyed_by_id (devices (discovery_step st x))"
  by (cases x)
    (auto simp: on_message_def keyed_by_id_handleAnnounce keyed_by_id_cleanup_tick
      split: option.splits)

lemma keyed_by_id_run:
  "keyed_by_id (devices st) \<Longrightarrow> keyed_by_id (devices (run_discovery ops st))"
  unfolding run_discovery_def
  by (induction ops arbitrary: st) (simp_all add: keyed_by_id_step)

lemma length_map_set:
  "length (map_set k v m) = (if k \<in> set (map fst m) then length m else Suc (length m))"
  by (induction m) force+

text \<open>
  C6. After any sequence of received datagrams and cleanup ticks, starting from the
  empty registry, the identifiers of the registry's entries are pairwise distinct. An
  announcement for an identifier that is present refreshes that one entry and adds
  none: the sequence of keys and the number of entries stay as they were, the entry
  under the identifier becomes the device built from this announcement (its name,
  platform and the packet's source address, online again), its last-seen time becomes
  the time of this announcement, every other entry and last-seen time is left as it
  was, and no \<open>device-discovered\<close> event is emitted. An announcement for a new
  identifier appends one entry and emits \<open>device-discovered\<close> for it. A received
  datagram is ingested in this way exactly when it parses as an announcement of another
  device, and is ignored otherwise; a cleanup tick keeps the sequence of keys.
\<close>

theorem registry_ids_distinct:
  "distinct (map (id_d \<circ> snd) (devices (run_discovery ops (new_discovery me))))
   \<and> map fst (devices (handleAnnounce data src_ip now st))
       = (if map_has (deviceId data) (devices st) then map fst (devices st)
          else map fst (devices st) @ [deviceId data])
   \<and> length (devices (handleAnnounce data src_ip now st))
       = (if map_has (deviceId data) (devices st) then length (devices st)
          else Suc (length (devices st)))
   \<and> map_of (devices (handleAnnounce data src_ip now st)) k
       = (if k = deviceId data
          then Some \<lparr>id_d = deviceId data, name_d = deviceName data, ip = src_ip,
                  port = TRANSFER_PORT, online = True,
                  type_d = getDeviceType (platform_a data),
                  platform = Some (platform_a data)\<rparr>
          else map_of (devices st) k)
   \<and> map_of (lastSeen (handleAnnounce data src_ip now st)) k
       = (if k = deviceId data then Some now else map_of (lastSeen st) k)
   \<and> emitted (handleAnnounce data src_ip now st)
       = emitted st @
         (if map_has (deviceId data) (devices st) then []
          else [DeviceDiscovered \<lparr>id_d = deviceId data, name_d = deviceName data,
                  ip = src_ip, port = TRANSFER_PORT, online = True,
                  type_d = getDeviceType (platform_a data),
                  platform = Some (platform_a data)\<rparr>])
   \<and> discovery_step st (Message (Some data) src_ip now)
       = (if type_a data = ''announce'' \<and> deviceId data \<noteq> self_id st
          then handleAnnounce data src_ip now st else st)
   \<and> map fst (devices (discovery_step st (Tick now))) = map fst (devices st)"
proof -
  have "keyed_by_id (devices (new_discovery me))"
    by (simp add: keyed_by_id_def new_discovery_def)
  then have "keyed_by_id (devices (run_discovery ops (new_discovery me)))"
    by (rule keyed_by_id_run)
  then have "distinct (map fst (devices (run_discovery ops (new_discovery me))))"
    and "map (id_d \<circ> snd) (devices (run_discovery ops (new_discovery me)))
       = map fst (devices (run_discovery ops (new_discovery me)))"
    by (simp add: keyed_by_id_def, rule keyed_by_id_ids)
  then have ids: "distinct (map (id_d \<circ> snd) (devices (run_discovery ops (new_discovery me))))"
    by (simp only:)
  have has: "map_has i m \<longleftrightarrow> i \<in> set (map fst m)"
    for i :: string and m :: "(string, device) jsmap"
    by (simp add: map_has_def map_of_eq_None_iff)
  have keys: "map fst (devices (handleAnnounce data src_ip now st))
       = (if map_has (deviceId data) (devices st) then map fst (devices st)
          else map fst (devices st) @ [deviceId data])"
    using has by (simp add: handleAnnounce_def Let_def map_fst_map_set del: map_map)
  have count: "length (devices (handleAnnounce data src_ip now st))
       = (if map_has (deviceId data) (devices st) then length (devices st)
          else Suc (length (devices st)))"
    using has by (simp add: handleAnnounce_def Let_def length_map_set del: map_map)
  have entry: "map_of (devices (handleAnnounce data src_ip now st)) k
       = (if k = deviceId data
          then Some \<lparr>id_d = deviceId data, name_d = deviceName data, ip = src_ip,
                  port = TRANSFER_PORT, online = True,
                  type_d = getDeviceType (platform_a data),
                  platform = Some (platform_a data)\<rparr>
          else map_of (devices st) k)"
    by (simp add: handleAnnounce_def Let_def map_of_map_set)
  have seen: "map_of (lastSeen (handleAnnounce data src_ip now st)) k
       = (if k = deviceId data then Some now else map_of (lastSeen st) k)"
    by (simp add: handleAnnounce_def Let_def map_of_map_set)
  have events: "emitted (handleAnnounce data src_ip now st)
       = emitted st @
         (if map_has (deviceId data) (devices st) then []
          else [DeviceDiscovered \<lparr>id_d = deviceId data, name_d = deviceName data,
                  ip = src_ip, port = TRANSFER_PORT, online = True,
                  type_d = getDeviceType (platform_a data),
                  platform = Some (platform_a data)\<rparr>])"
    by (simp add: handleAnnounce_def Let_def)
  have ingest: "discovery_step st (Message (Some data) src_ip now)
       = (if type_a data = ''announce'' \<and> deviceId data \<noteq> self_id st
          then handleAnnounce data src_ip now st else st)"
    by (simp add: on_message_def)
  have sweep: "map fst (devices (discovery_step st (Tick now))) = map fst (devices st)"
    by (simp add: cleanup_tick_def Let_def map_fst_relabel del: map_map)
  from ids keys count entry seen events ingest sweep show ?thesis
    by (intro conjI)
qed

theorem registry_ids_distinct_witness:
  "distinct (map (id_d \<circ> snd) (devices (run_discovery
      [Message (Some peer_announce) ''192.168.1.7'' 1000, Tick 2000,
       Message (Some peer_announce) ''192.168.1.8'' 3000]
      (new_discovery ''me''))))
   \<and> devices (run_discovery
      [Message (Some peer_announce) ''192.168.1.7'' 1000, Tick 2000,
       Message (Some peer_announce) ''192.168.1.8'' 3000]
      (new_discovery ''me'')) = [(''peer'', peer_device\<lparr>ip := ''192.168.1.8''\<rparr>)]
   \<and> lastSeen (run_discovery
      [Message (Some peer_announce) ''192.168.1.7'' 1000, Tick 2000,
       Message (Some peer_announce) ''192.168.1.8'' 3000]
      (new_discovery ''me'')) = [(''peer'', 3000)]
   \<and> map_of (devices (handleAnnounce peer_announce ''192.168.1.8'' 3000
        (run_discovery [Message (Some peer_announce) ''192.168.1.7'' 1000, Tick 2000]
          (new_discovery ''me'')))) ''peer''
       = Some (peer_device\<lparr>ip := ''192.168.1.8''\<rparr>)
   \<and> length (devices (handleAnnounce peer_announce ''192.168.1.8'' 3000
        (run_discovery [Message (Some peer_announce) ''192.168.1.7'' 1000, Tick 2000]
          (new_discovery ''me'')))) = 1"
  using registry_ids_distinct [of
      "[Message (Some peer_announce) ''192.168.1.7'' 1000, Tick 2000,
        Message (Some peer_announce) ''192.168.1.8'' 3000]" "''me''"
      peer_announce "''192.168.1.8''" 3000
      "run_discovery [Message (Some peer_announce) ''192.168.1.7'' 1000, Tick 2000]
         (new_discovery ''me'')" "''peer''"]
  by (simp add: run_discovery_def on_message_def handleAnnounce_def cleanup_tick_def Let_def
      peer_announce_def peer_device_def new_discovery_def map_has_def getDeviceType_def
      TRANSFER_PORT_def timed_out_def lastSeenTime_def DEVICE_TIMEOUT_def)

section \<open>Repeated offline events\<close>

text \<open>
  C3 (the code at the failing input). A peer announces once at time 1000 and stays
  silent. The cleanup ticks at 12000 and at 13000 both emit \<open>device-offline\<close> for it:
  the tick does not look at \<open>online\<close> and removes nothing, so every later tick emits
  the event again.
\<close>

theorem offline_emitted_on_every_tick:
  "emitted (run_discovery
      [Message (Some peer_announce) ''192.168.1.7'' 1000, Tick 12000, Tick 13000]
      (new_discovery ''me''))
   = [DeviceDiscovered peer_device,
      DeviceOffline (peer_device\<lparr>online := False\<rparr>),
      DeviceOffline (peer_device\<lparr>online := False\<rparr>)]"
  by (simp add: run_discovery_def on_message_def handleAnnounce_def cleanup_tick_def Let_def
      peer_announce_def peer_device_def new_discovery_def map_has_def getDeviceType_def
      TRANSFER_PORT_def timed_out_def lastSeenTime_def DEVICE_TIMEOUT_def)

section \<open>The total size of a request\<close>

lemma foldl_add_sizes: "foldl (\<lambda>sum f. sum + size_f f) acc fls = acc + sum_list (map size_f fls)"
  by (induction fls arbitrary: acc) simp_all

lemma sum_sizes_split:
  "sum_list (map size_f fls) =
     sum_list (map size_f (filter (\<lambda>f. \<not> isDirectory f) fls))
     + sum_list (map size_f (filter isDirectory fls))"
  by (induction fls) simp_all

text \<open>
  C9 (as the code has it). The transfer request written on connect carries as
  \<open>totalSize\<close> the sum of the declared sizes of all entries of the list: the sum over
  the non-directory entries plus the sum over the directory entries.
\<close>

theorem request_totalSize_sums_every_entry:
  "written (on_connect (sendFiles dev fls taskId now)) =
     [RequestLine \<lparr>type_r = ''transfer_request'', fileCount = length fls,
        totalSize_r = sum_list (map size_f (filter (\<lambda>f. \<not> isDirectory f) fls))
                    + sum_list (map size_f (filter isDirectory fls)),
        files_r = fls\<rparr>]"
proof -
  have "sum_sizes fls = sum_list (map size_f fls)"
    by (simp add: sum_sizes_def foldl_add_sizes)
  also have "\<dots> =
      sum_list (map size_f (filter (\<lambda>f. \<not> isDirectory f) fls))
      + sum_list (map size_f (filter isDirectory fls))"
    by (rule sum_sizes_split)
  finally show ?thesis
    by (simp add: on_connect_def sendFiles_def Let_def)
qed

text \<open>
  C9 as stated fails: for a directory entry of declared size 4096 followed by a file of
  size 2, the request says 4098, the non-directory entries add up to 2.
\<close>

theorem directory_size_counted_in_totalSize:
  "written (on_connect (sendFiles peer_device [dir_photos, file_a] ''t1'' 0)) =
     [RequestLine \<lparr>type_r = ''transfer_request'', fileCount = 2, totalSize_r = 4098,
        files_r = [dir_photos, file_a]\<rparr>]
   \<and> sum_list (map size_f (filter (\<lambda>f. \<not> isDirectory f) [dir_photos, file_a])) = 2"
  by (simp add: on_connect_def sendFiles_def Let_def sum_sizes_def dir_photos_def file_a_def)

section \<open>Setting the download directory\<close>

text \<open>
  C10. \<open>setDownloadDir(dir)\<close> makes \<open>dir\<close> the download directory, and changes
  nothing else, if \<open>dir\<close> exists; if it does not exist, the service is left as it
  was. It returns in both cases.
\<close>

theorem setDownloadDir_only_existing:
  "(existsSync (fs st) dir \<longrightarrow> setDownloadDir dir st = st\<lparr>downloadDir := dir\<rparr>)
   \<and> (\<not> existsSync (fs st) dir \<longrightarrow> setDownloadDir dir st = st)"
  by (simp add: setDownloadDir_def)

theorem setDownloadDir_only_existing_witness:
  "downloadDir (setDownloadDir ''/dl'' (idle_receiver ''/dl'')) = ''/dl''
   \<and> downloadDir (setDownloadDir ''/missing'' (idle_receiver ''/dl'')) = ''/dl''"
  using setDownloadDir_only_existing [of "idle_receiver ''/dl''" "''/dl''"]
    setDownloadDir_only_existing [of "idle_receiver ''/dl''" "''/missing''"]
  by (simp add: idle_receiver_def existsSync_def)

section \<open>A rejected request\<close>

lemma rejecting_socket_data:
  "\<not> listening st \<Longrightarrow>
   \<not> listening (socket_data parse False new_id now remote st dat)
   \<and> fs (socket_data parse False new_id now remote st dat) = fs st"
  by (simp add: socket_data_def handleConnection_data_def Let_def split: option.splits)

lemma rejecting_connection:
  "\<not> listening st \<Longrightarrow>
   \<not> listening (connection parse False new_id now remote st evs)
   \<and> fs (connection parse False new_id now remote st evs) = fs st"
  unfolding connection_def
proof (induction evs arbitrary: st)
  case Nil
  then show ?case by simp
next
  case (Cons dat evs)
  from rejecting_socket_data [OF Cons.prems, of parse new_id now remote dat]
  have quiet: "\<not> listening (socket_data parse False new_id now remote st dat)"
    and same: "fs (socket_data parse False new_id now remote st dat) = fs st"
    by simp_all
  from Cons.IH [OF quiet] same show ?case by simp
qed

text \<open>
  C4 (as the code has it). When the reply to the request is a transfer response that
  does not accept, the initiator writes nothing after its request line (no chunk, no
  end marker), ends the socket and rejects the promise of \<open>sendFiles\<close> with the
  reply's message; the task keeps the status \<open>pending\<close> and 0 transferred bytes,
  also after the socket has closed. A responder that takes its rejecting branch
  leaves the file system as it was, whatever arrives on the connection.
\<close>

theorem rejected_request_sends_and_writes_nothing:
  assumes "type_p r = ''transfer_response''" and "\<not> accepted r"
  shows "data_writes (written (on_close (on_response src (on_connect (sendFiles dev fls taskId now)) (Some r)))) = []
       \<and> ended (on_close (on_response src (on_connect (sendFiles dev fls taskId now)) (Some r)))
       \<and> promise (on_close (on_response src (on_connect (sendFiles dev fls taskId now)) (Some r)))
           = Rejected (message r)
       \<and> status (task (on_close (on_response src (on_connect (sendFiles dev fls taskId now)) (Some r))))
           = Pending
       \<and> transferredSize (task (on_close (on_response src (on_connect (sendFiles dev fls taskId now)) (Some r))))
           = 0
       \<and> fs (connection parse False new_id t remote (idle_receiver root) evs)
           = fs (idle_receiver root)"
proof -
  have "\<not> listening (idle_receiver root)"
    by (simp add: idle_receiver_def)
  then have "fs (connection parse False new_id t remote (idle_receiver root) evs)
      = fs (idle_receiver root)"
    using rejecting_connection by blast
  then show ?thesis
    using assms
    by (simp add: on_close_def on_response_def on_connect_def sendFiles_def Let_def settle_def)
qed

theorem rejected_request_sends_and_writes_nothing_witness:
  "written (on_close (on_response src_disk (on_connect (sendFiles peer_device [file_a, file_b] ''t1'' 0))
      (Some reject_response)))
     = [RequestLine \<lparr>type_r = ''transfer_request'', fileCount = 2, totalSize_r = 5,
          files_r = [file_a, file_b]\<rparr>]
   \<and> promise (on_close (on_response src_disk (on_connect (sendFiles peer_device [file_a, file_b] ''t1'' 0))
      (Some reject_response))) = Rejected ''reject''"
  using rejected_request_sends_and_writes_nothing [of reject_response src_disk peer_device
      "[file_a, file_b]" "''t1''" 0]
  by (simp add: reject_response_def on_close_def on_response_def on_connect_def sendFiles_def
      Let_def settle_def sum_sizes_def file_a_def file_b_def)

text \<open>
  C4 as stated fails: after a rejecting reply and the close of the socket the task of
  the initiator has the status \<open>pending\<close>, the value it was created with; the status
  type has no value for a rejected transfer.
\<close>

theorem rejected_request_leaves_status_pending:
  "status (task (on_close (on_response src_disk
      (on_connect (sendFiles peer_device [file_a, file_b] ''t1'' 0)) (Some reject_response))))
     = Pending"
  by (simp add: reject_response_def on_close_def on_response_def on_connect_def sendFiles_def
      Let_def)

section \<open>File boundaries in the data phase\<close>

text \<open>
  C1 (the code at the failing input). The manifest has \<open>a.txt\<close> (2 bytes) and
  \<open>b.txt\<close> (3 bytes). The initiator writes one chunk per file and then the end marker;
  the responder gets each write as one \<open>'data'\<close> event. Nothing compares
  \<open>fileWrittenBytes\<close> with the declared size: only a 4-byte zero event moves the
  responder to the next entry. With \<open>totalWrittenBytes\<close> unbound, the first chunk
  goes to \<open>a.txt\<close>, the accounting throws, the socket is ended and \<open>b.txt\<close> is never
  opened. With a counter bound there, both chunks go to \<open>a.txt\<close> and \<open>b.txt\<close> is
  created empty after the end marker. In neither case does \<open>b.txt\<close> receive its bytes.
  When the first entry is the empty file \<open>e.txt\<close>, the bytes of \<open>b.txt\<close> are written
  to \<open>e.txt\<close>, whatever the counter is bound to.
\<close>

theorem second_file_never_receives_its_bytes:
  "data_writes (written (on_response src_disk
      (on_connect (sendFiles peer_device [file_a, file_b] ''t1'' 0)) (Some accept_response)))
     = [[0, 0, 0, 2, 97, 97], [0, 0, 0, 3, 98, 98, 98], [0, 0, 0, 0]]
   \<and> fs_files (fs (receive_events (accepted_receiver ''/dl'' None [file_a, file_b])
        [[0, 0, 0, 2, 97, 97], [0, 0, 0, 3, 98, 98, 98], [0, 0, 0, 0]])) ''/dl/a.txt''
       = Some [97, 97]
   \<and> fs_files (fs (receive_events (accepted_receiver ''/dl'' None [file_a, file_b])
        [[0, 0, 0, 2, 97, 97], [0, 0, 0, 3, 98, 98, 98], [0, 0, 0, 0]])) ''/dl/b.txt''
       = None
   \<and> fs_files (fs (receive_events (accepted_receiver ''/dl'' (Some n) [file_a, file_b])
        [[0, 0, 0, 2, 97, 97], [0, 0, 0, 3, 98, 98, 98], [0, 0, 0, 0]])) ''/dl/a.txt''
       = Some [97, 97, 98, 98, 98]
   \<and> fs_files (fs (receive_events (accepted_receiver ''/dl'' (Some n) [file_a, file_b])
        [[0, 0, 0, 2, 97, 97], [0, 0, 0, 3, 98, 98, 98], [0, 0, 0, 0]])) ''/dl/b.txt''
       = Some []
   \<and> data_writes (written (on_response src_disk
      (on_connect (sendFiles peer_device [file_empty, file_b] ''t2'' 0)) (Some accept_response)))
     = [[0, 0, 0, 3, 98, 98, 98], [0, 0, 0, 0]]
   \<and> fs_files (fs (receive_events (accepted_receiver ''/dl'' counter [file_empty, file_b])
        [[0, 0, 0, 3, 98, 98, 98], [0, 0, 0, 0]])) ''/dl/e.txt''
       = Some [98, 98, 98]
   \<and> fs_files (fs (receive_events (accepted_receiver ''/dl'' counter [file_empty, file_b])
        [[0, 0, 0, 3, 98, 98, 98], [0, 0, 0, 0]])) ''/dl/b.txt''
       \<noteq> Some [98, 98, 98]"
proof -
  note sender_defs = on_response_def on_connect_def sendFiles_def accept_response_def
    src_disk_def file_a_def file_b_def file_empty_def Let_def writeUInt32BE_def CHUNK_SIZE_def
    sum_sizes_def
  note receiver_defs = receive_events_def accepted_receiver_def idle_receiver_def receiveNextFile_def
    receiveData_def file_a_def file_b_def file_empty_def Let_def path_join_def
    normalize_path_def normalizeString_def normalize_step_def path_dirname_def existsSync_def
    mkdirSync_def open_w_def write_h_def
  have sender: "data_writes (written (on_response src_disk
      (on_connect (sendFiles peer_device [file_a, file_b] ''t1'' 0)) (Some accept_response)))
     = [[0, 0, 0, 2, 97, 97], [0, 0, 0, 3, 98, 98, 98], [0, 0, 0, 0]]"
    by (simp add: sender_defs)
  have unbound: "fs_files (fs (receive_events (accepted_receiver ''/dl'' None [file_a, file_b])
        [[0, 0, 0, 2, 97, 97], [0, 0, 0, 3, 98, 98, 98], [0, 0, 0, 0]])) ''/dl/a.txt''
       = Some [97, 97]"
    "fs_files (fs (receive_events (accepted_receiver ''/dl'' None [file_a, file_b])
        [[0, 0, 0, 2, 97, 97], [0, 0, 0, 3, 98, 98, 98], [0, 0, 0, 0]])) ''/dl/b.txt''
       = None"
    by (simp_all add: receiver_defs)
  have bound: "fs_files (fs (receive_events (accepted_receiver ''/dl'' (Some n) [file_a, file_b])
        [[0, 0, 0, 2, 97, 97], [0, 0, 0, 3, 98, 98, 98], [0, 0, 0, 0]])) ''/dl/a.txt''
       = Some [97, 97, 98, 98, 98]"
    "fs_files (fs (receive_events (accepted_receiver ''/dl'' (Some n) [file_a, file_b])
        [[0, 0, 0, 2, 97, 97], [0, 0, 0, 3, 98, 98, 98], [0, 0, 0, 0]])) ''/dl/b.txt''
       = Some []"
    by (simp_all add: receiver_defs)
  have sender_empty: "data_writes (written (on_response src_disk
      (on_connect (sendFiles peer_device [file_empty, file_b] ''t2'' 0)) (Some accept_response)))
     = [[0, 0, 0, 3, 98, 98, 98], [0, 0, 0, 0]]"
    by (simp add: sender_defs)
  have empty_first:
    "fs_files (fs (receive_events (accepted_receiver ''/dl'' counter [file_empty, file_b])
        [[0, 0, 0, 3, 98, 98, 98], [0, 0, 0, 0]])) ''/dl/e.txt''
       = Some [98, 98, 98]"
    "fs_files (fs (receive_events (accepted_receiver ''/dl'' counter [file_empty, file_b])
        [[0, 0, 0, 3, 98, 98, 98], [0, 0, 0, 0]])) ''/dl/b.txt''
       \<noteq> Some [98, 98, 98]"
    by (cases counter; simp add: receiver_defs)+
  from sender unbound bound sender_empty empty_first show ?thesis
    by (intro conjI)
qed

section \<open>Events that do not align with frames\<close>

text \<open>
  C8 (the code at the failing input). One file \<open>a.txt\<close> of 2 bytes; the data phase is
  the byte stream \<open>0 0 0 2 97 97 0 0 0 0\<close>. Delivered as one event per frame, the
  file gets both bytes. Delivered with the first frame split after its fifth byte, the
  listener takes the first event for a whole frame and writes the one content byte it
  holds; the byte that arrives next is never written (the event is shorter than 4
  bytes, or the listener is gone). This holds whatever \<open>totalWrittenBytes\<close> is bound
  to.
\<close>

theorem split_frame_loses_bytes:
  "concat [[0, 0, 0, 2, 97, 97], [0, 0, 0, 0]]
     = concat [[0, 0, 0, 2, 97], [97], [0, 0, 0, 0 :: byte]]
   \<and> fs_files (fs (receive_events (accepted_receiver ''/dl'' counter [file_a])
        [[0, 0, 0, 2, 97, 97], [0, 0, 0, 0]])) ''/dl/a.txt'' = Some [97, 97]
   \<and> fs_files (fs (receive_events (accepted_receiver ''/dl'' counter [file_a])
        [[0, 0, 0, 2, 97], [97], [0, 0, 0, 0]])) ''/dl/a.txt'' = Some [97]"
  by (cases counter)
    (simp_all add: receive_events_def accepted_receiver_def idle_receiver_def receiveNextFile_def
      receiveData_def file_a_def Let_def path_join_def normalize_path_def
      normalizeString_def normalize_step_def path_dirname_def existsSync_def mkdirSync_def
      open_w_def write_h_def)

section \<open>Destination paths\<close>























end
